theory Spec2Isabelle
  imports Complex_Main
begin

section \<open>Data model\<close>

text \<open>
  The anonymizer of \<^verbatim>\<open>src/main.py\<close> rewrites JSON, CSV and XML documents field by
  field under a rule set loaded from a JSON configuration file. This theory embeds its
  three adapters and its \<^verbatim>\<open>main\<close> function, and proves the properties of the
  specification about them.

  A JSON value as \<^verbatim>\<open>json.load\<close> delivers it. A Python \<^verbatim>\<open>dict\<close> keeps its
  keys in insertion order and the adapter iterates in that order, so an object is an
  association list; its keys are pairwise different (\<open>wf_json\<close> below).
\<close>

datatype json =
    JNull
  | JBool bool
  | JInt int
  | JFloat real
  | JStr string
  | JArr "json list"
  | JObj "(string \<times> json) list"

text \<open>The exceptions that the code raises, catches or lets through.\<close>

datatype exn =
    RuntimeError
  | ReError
  | FileNotFoundError
  | ParseError
  | JSONDecodeError
  | TypeError
  | KeyError
  | UnicodeEncodeError
  | OtherError

text \<open>
  What \<^verbatim>\<open>logging\<close> receives: the level and which message of the source it is, with
  the names the message interpolates.
\<close>

datatype level = ERROR | WARNING | INFO

datatype msg =
    RegexNeedsString string
  | InvalidRegex string
  | UnknownAction string string
  | NoParent string
  | ConfigNotFound
  | ConfigInvalid
  | EncodingError
  | EncodingDefault
  | InputNotFound
  | InputMissing
  | CsvError
  | XmlParseError
  | XmlError
  | JsonDecodeFailed
  | ConfigRequired
  | Saved
  | Failed

text \<open>
  A rule is one entry of the configuration, typed as the specification gives it
  (\<^verbatim>\<open>action\<close>, \<^verbatim>\<open>placeholder\<close> and \<^verbatim>\<open>regex\<close> are strings, each may be absent).
  \<open>None\<close> is an absent key, which \<^verbatim>\<open>dict.get\<close> answers with its default.
\<close>

record rule =
  action :: "string option"
  placeholder :: "string option"
  regex :: "string option"

type_synonym config = "(string \<times> rule) list"

text \<open>
  The two libraries the adapters call are parameters: \<^verbatim>\<open>re.sub\<close>, which returns the
  substituted string or raises (\<open>ReError\<close> is \<^verbatim>\<open>re.error\<close>), and the Faker instance,
  whose answer may depend on every call made before.
\<close>

record lib =
  re_sub :: "string \<Rightarrow> string \<Rightarrow> string \<Rightarrow> exn + string"
  fake :: "string list \<Rightarrow> string \<Rightarrow> string"

text \<open>The state the program threads: the log and the Faker calls made so far.\<close>

record world =
  logs :: "(level \<times> msg) list"
  fake_calls :: "string list"

definition emit :: "level \<Rightarrow> msg \<Rightarrow> world \<Rightarrow> world" where
  "emit l m w = w\<lparr>logs := logs w @ [(l, m)]\<rparr>"

definition call_fake :: "lib \<Rightarrow> string \<Rightarrow> world \<Rightarrow> string \<times> world" where
  "call_fake L cat w = (fake L (fake_calls w) cat, w\<lparr>fake_calls := fake_calls w @ [cat]\<rparr>)"

definition get_action :: "rule \<Rightarrow> string" where
  "get_action r = (case action r of None \<Rightarrow> ''replace'' | Some a \<Rightarrow> a)"

definition get_placeholder :: "rule \<Rightarrow> string" where
  "get_placeholder r = (case placeholder r of None \<Rightarrow> [] | Some p \<Rightarrow> p)"

text \<open>\<^verbatim>\<open>if regex:\<close> holds for a string that is present and not empty.\<close>

definition truthy :: "string option \<Rightarrow> bool" where
  "truthy r = (case r of None \<Rightarrow> False | Some s \<Rightarrow> s \<noteq> [])"

section \<open>The JSON adapter\<close>

text \<open>\<^verbatim>\<open>data[key] = v\<close> and \<^verbatim>\<open>del data[key]\<close> on a dict in insertion order.\<close>

fun dict_set :: "string \<Rightarrow> 'v \<Rightarrow> (string \<times> 'v) list \<Rightarrow> (string \<times> 'v) list" where
  "dict_set k v [] = [(k, v)]"
| "dict_set k v ((k', v') # d) = (if k' = k then (k, v) # d else (k', v') # dict_set k v d)"

fun dict_del :: "string \<Rightarrow> (string \<times> 'v) list \<Rightarrow> (string \<times> 'v) list" where
  "dict_del k [] = []"
| "dict_del k ((k', v') # d) = (if k' = k then d else (k', v') # dict_del k d)"

text \<open>
  The body of the loop for a key that has a rule (lines 105 to 139): the dict after the
  step, or the exception that leaves the loop.
\<close>

definition json_rule :: "lib \<Rightarrow> rule \<Rightarrow> string \<Rightarrow> json \<Rightarrow> (string \<times> json) list \<Rightarrow> world
    \<Rightarrow> (exn + (string \<times> json) list) \<times> world" where
  "json_rule L r key val data w =
    (if truthy (regex r) then
       (case val of
          JStr s \<Rightarrow>
            (case re_sub L (the (regex r)) (get_placeholder r) s of
               Inr s' \<Rightarrow> (Inr (dict_set key (JStr s') data), w)
             | Inl e \<Rightarrow>
                 if e = ReError then (Inr data, emit ERROR (InvalidRegex key) w)
                 else (Inl e, w))
        | _ \<Rightarrow> (Inr data, emit WARNING (RegexNeedsString key) w))
     else if get_action r = ''replace'' then
       (if get_placeholder r = ''fake.name'' then
          (case call_fake L ''name'' w of (v, w') \<Rightarrow> (Inr (dict_set key (JStr v) data), w'))
        else if get_placeholder r = ''fake.email'' then
          (case call_fake L ''email'' w of (v, w') \<Rightarrow> (Inr (dict_set key (JStr v) data), w'))
        else if get_placeholder r = ''fake.address'' then
          (case call_fake L ''address'' w of (v, w') \<Rightarrow> (Inr (dict_set key (JStr v) data), w'))
        else if get_placeholder r = ''fake.phone_number'' then
          (case call_fake L ''phone_number'' w of (v, w') \<Rightarrow> (Inr (dict_set key (JStr v) data), w'))
        else if get_placeholder r = ''fake.date'' then
          (case call_fake L ''date'' w of (v, w') \<Rightarrow> (Inr (dict_set key (JStr v) data), w'))
        else if get_placeholder r = ''null'' then (Inr (dict_set key JNull data), w)
        else (Inr (dict_set key (JStr (get_placeholder r)) data), w))
     else if get_action r = ''remove'' then (Inr (dict_del key data), w)
     else (Inr data, emit WARNING (UnknownAction (get_action r) key) w))"

text \<open>
  \<^verbatim>\<open>anonymize_json\<close>. The loop \<^verbatim>\<open>for key, value in data.items()\<close> runs over the
  entries the dict had when the loop began: a step assigns to the current key only, so
  the entries still to come are the original ones. The dict iterator remembers the
  size the dict had (\<open>used\<close>) and every call of its \<^verbatim>\<open>next\<close>, the last one too, raises
  \<^verbatim>\<open>RuntimeError\<close> when the size has changed.
\<close>

fun anonymize_json :: "lib \<Rightarrow> config \<Rightarrow> json \<Rightarrow> world \<Rightarrow> (exn + json) \<times> world"
  and anonymize_list :: "lib \<Rightarrow> config \<Rightarrow> json list \<Rightarrow> world \<Rightarrow> (exn + json list) \<times> world"
  and anonymize_items :: "lib \<Rightarrow> config \<Rightarrow> nat \<Rightarrow> (string \<times> json) list \<Rightarrow> (string \<times> json) list
    \<Rightarrow> world \<Rightarrow> (exn + (string \<times> json) list) \<times> world" where
  "anonymize_json L cfg (JObj items) w =
     (case anonymize_items L cfg (length items) items items w of
        (Inl e, w') \<Rightarrow> (Inl e, w')
      | (Inr d, w') \<Rightarrow> (Inr (JObj d), w'))"
| "anonymize_json L cfg (JArr xs) w =
     (case anonymize_list L cfg xs w of
        (Inl e, w') \<Rightarrow> (Inl e, w')
      | (Inr ys, w') \<Rightarrow> (Inr (JArr ys), w'))"
| "anonymize_json L cfg JNull w = (Inr JNull, w)"
| "anonymize_json L cfg (JBool b) w = (Inr (JBool b), w)"
| "anonymize_json L cfg (JInt i) w = (Inr (JInt i), w)"
| "anonymize_json L cfg (JFloat f) w = (Inr (JFloat f), w)"
| "anonymize_json L cfg (JStr s) w = (Inr (JStr s), w)"
| "anonymize_list L cfg [] w = (Inr [], w)"
| "anonymize_list L cfg (x # xs) w =
     (case anonymize_json L cfg x w of
        (Inl e, w') \<Rightarrow> (Inl e, w')
      | (Inr y, w') \<Rightarrow>
          (case anonymize_list L cfg xs w' of
             (Inl e, w'') \<Rightarrow> (Inl e, w'')
           | (Inr ys, w'') \<Rightarrow> (Inr (y # ys), w'')))"
| "anonymize_items L cfg used [] data w =
     (if length data \<noteq> used then (Inl RuntimeError, w) else (Inr data, w))"
| "anonymize_items L cfg used ((key, val) # rest) data w =
     (if length data \<noteq> used then (Inl RuntimeError, w)
      else
        (case map_of cfg key of
           Some r \<Rightarrow>
             (case json_rule L r key val data w of
                (Inl e, w') \<Rightarrow> (Inl e, w')
              | (Inr data', w') \<Rightarrow> anonymize_items L cfg used rest data' w')
         | None \<Rightarrow>
             (case val of
                JObj its \<Rightarrow>
                  (case anonymize_json L cfg val w of
                     (Inl e, w') \<Rightarrow> (Inl e, w')
                   | (Inr v', w') \<Rightarrow> anonymize_items L cfg used rest (dict_set key v' data) w')
              | JArr xs \<Rightarrow>
                  (case anonymize_list L cfg xs w of
                     (Inl e, w') \<Rightarrow> (Inl e, w')
                   | (Inr ys, w') \<Rightarrow>
                       anonymize_items L cfg used rest (dict_set key (JArr ys) data) w')
              | _ \<Rightarrow> anonymize_items L cfg used rest data w)))"

section \<open>The CSV adapter\<close>

text \<open>
  A cell of a row that \<^verbatim>\<open>csv.DictReader\<close> delivers is a string, or \<^verbatim>\<open>None\<close> (the
  reader's \<^verbatim>\<open>restval\<close>) where the line is shorter than the header.

  \<^verbatim>\<open>DictReader.__next__\<close> builds \<^verbatim>\<open>dict(zip(fieldnames, row))\<close> and then assigns
  \<^verbatim>\<open>None\<close> to every field name beyond the length of the line; cells beyond the header
  go under the key \<^verbatim>\<open>None\<close>, which the adapter never reads. A later assignment to the
  same name wins, so the list is kept latest first for \<open>map_of\<close>.
\<close>

type_synonym cell = "string option"

definition dict_reader_row :: "string list \<Rightarrow> string list \<Rightarrow> (string \<times> cell) list" where
  "dict_reader_row fieldnames row =
     rev (zip fieldnames (map Some row @ replicate (length fieldnames - length row) None))"

text \<open>\<^verbatim>\<open>row.get(field, "")\<close> and \<^verbatim>\<open>row[field]\<close>.\<close>

definition row_get :: "(string \<times> cell) list \<Rightarrow> string \<Rightarrow> cell" where
  "row_get row field = (case map_of row field of None \<Rightarrow> Some [] | Some v \<Rightarrow> v)"

definition row_index :: "(string \<times> cell) list \<Rightarrow> string \<Rightarrow> exn + cell" where
  "row_index row field = (case map_of row field of None \<Rightarrow> Inl KeyError | Some v \<Rightarrow> Inr v)"

text \<open>
  The value that lines 173 to 206 assign to \<^verbatim>\<open>anonymized_row[field]\<close> for a field
  that has a rule, or the exception that leaves the loops.
\<close>

definition csv_rule :: "lib \<Rightarrow> rule \<Rightarrow> string \<Rightarrow> cell \<Rightarrow> world \<Rightarrow> (exn + cell) \<times> world" where
  "csv_rule L r field val w =
    (if truthy (regex r) then
       (case val of
          Some s \<Rightarrow>
            (case re_sub L (the (regex r)) (get_placeholder r) s of
               Inr s' \<Rightarrow> (Inr (Some s'), w)
             | Inl e \<Rightarrow>
                 if e = ReError then (Inr val, emit ERROR (InvalidRegex field) w)
                 else (Inl e, w))
        | None \<Rightarrow> (Inr val, emit WARNING (RegexNeedsString field) w))
     else if get_action r = ''replace'' then
       (if get_placeholder r = ''fake.name'' then
          (case call_fake L ''name'' w of (v, w') \<Rightarrow> (Inr (Some v), w'))
        else if get_placeholder r = ''fake.email'' then
          (case call_fake L ''email'' w of (v, w') \<Rightarrow> (Inr (Some v), w'))
        else if get_placeholder r = ''fake.address'' then
          (case call_fake L ''address'' w of (v, w') \<Rightarrow> (Inr (Some v), w'))
        else if get_placeholder r = ''fake.phone_number'' then
          (case call_fake L ''phone_number'' w of (v, w') \<Rightarrow> (Inr (Some v), w'))
        else if get_placeholder r = ''fake.date'' then
          (case call_fake L ''date'' w of (v, w') \<Rightarrow> (Inr (Some v), w'))
        else (Inr (Some (get_placeholder r)), w))
     else if get_action r = ''remove'' then (Inr (Some []), w)
     else (Inr val, emit WARNING (UnknownAction (get_action r) field) w))"

definition csv_field :: "lib \<Rightarrow> config \<Rightarrow> (string \<times> cell) list \<Rightarrow> string \<Rightarrow> world
    \<Rightarrow> (exn + cell) \<times> world" where
  "csv_field L cfg row field w =
     (case map_of cfg field of
        Some r \<Rightarrow> csv_rule L r field (row_get row field) w
      | None \<Rightarrow> (row_index row field, w))"

text \<open>The loop \<^verbatim>\<open>for field in fieldnames\<close>, filling \<^verbatim>\<open>anonymized_row\<close>.\<close>

fun csv_fields :: "lib \<Rightarrow> config \<Rightarrow> (string \<times> cell) list \<Rightarrow> string list \<Rightarrow> (string \<times> cell) list
    \<Rightarrow> world \<Rightarrow> (exn + (string \<times> cell) list) \<times> world" where
  "csv_fields L cfg row [] anon w = (Inr anon, w)"
| "csv_fields L cfg row (field # rest) anon w =
     (case csv_field L cfg row field w of
        (Inl e, w') \<Rightarrow> (Inl e, w')
      | (Inr v, w') \<Rightarrow> csv_fields L cfg row rest (dict_set field v anon) w')"

text \<open>
  \<^verbatim>\<open>DictWriter.writerow\<close> takes \<^verbatim>\<open>rowdict.get(key, "")\<close> for every field name in
  header order, and the writer prints \<^verbatim>\<open>None\<close> as the empty string.
\<close>

definition write_cell :: "(string \<times> cell) list \<Rightarrow> string \<Rightarrow> string" where
  "write_cell anon field =
     (case map_of anon field of None \<Rightarrow> [] | Some None \<Rightarrow> [] | Some (Some s) \<Rightarrow> s)"

definition writerow :: "string list \<Rightarrow> (string \<times> cell) list \<Rightarrow> string list" where
  "writerow fieldnames anon = map (write_cell anon) fieldnames"

text \<open>
  The loop \<^verbatim>\<open>for row in reader\<close>. Each step of the reader delivers a line or raises
  (a decoding error, \<^verbatim>\<open>csv.Error\<close>), so the input is a list of such outcomes; the
  reader skips a line with no cell at all. Every other line is transformed and written
  before the next is read, and \<^verbatim>\<open>writer.writerow\<close> may raise too (a cell that the
  encoding of the output file cannot encode, a full disk): \<open>wr\<close> tells for a row
  whether writing it raises. \<open>out\<close> is what the output file holds so far, and it stays
  on disk when an exception stops the loop.
\<close>

fun csv_rows :: "lib \<Rightarrow> config \<Rightarrow> (string list \<Rightarrow> exn option) \<Rightarrow> string list
    \<Rightarrow> (exn + string list) list \<Rightarrow> string list list \<Rightarrow> world
    \<Rightarrow> exn option \<times> string list list \<times> world" where
  "csv_rows L cfg wr fieldnames [] out w = (None, out, w)"
| "csv_rows L cfg wr fieldnames (Inl e # rest) out w = (Some e, out, w)"
| "csv_rows L cfg wr fieldnames (Inr row # rest) out w =
     (if row = [] then csv_rows L cfg wr fieldnames rest out w
      else
        (case csv_fields L cfg (dict_reader_row fieldnames row) fieldnames [] w of
           (Inl e, w') \<Rightarrow> (Some e, out, w')
         | (Inr anon, w') \<Rightarrow>
             (case wr (writerow fieldnames anon) of
                Some e \<Rightarrow> (Some e, out, w')
              | None \<Rightarrow>
                  csv_rows L cfg wr fieldnames rest (out @ [writerow fieldnames anon]) w')))"

text \<open>
  What \<^verbatim>\<open>anonymize_csv\<close> gets from outside: the outcome of \<^verbatim>\<open>detect_encoding\<close>'s
  read and of \<^verbatim>\<open>chardet\<close>; for the encoding the files are opened with, the outcome of
  opening the input and the lines that \<^verbatim>\<open>csv.reader\<close> then delivers one by one,
  whether opening the output fails, and whether writing a given row fails.
\<close>

record csv_io =
  detected :: "exn + string option"
  csv_src :: "string \<Rightarrow> exn + (exn + string list) list"
  csv_dst_fails :: "string \<Rightarrow> exn option"
  csv_write :: "string \<Rightarrow> string list \<Rightarrow> exn option"

definition detect_encoding :: "exn + string option \<Rightarrow> world \<Rightarrow> string option \<times> world" where
  "detect_encoding d w =
     (case d of Inl e \<Rightarrow> (None, emit ERROR EncodingError w) | Inr enc \<Rightarrow> (enc, w))"

text \<open>Lines 157 to 160: the encoding both files are opened with.\<close>

definition csv_start :: "csv_io \<Rightarrow> world \<Rightarrow> string \<times> world" where
  "csv_start io w =
     (case detect_encoding (detected io) w of
        (enc, w1) \<Rightarrow>
          if truthy enc then (the enc, w1) else (''utf-8'', emit ERROR EncodingDefault w1))"

definition csv_except :: "exn \<Rightarrow> world \<Rightarrow> world" where
  "csv_except e w =
     (if e = FileNotFoundError then emit ERROR InputNotFound w else emit ERROR CsvError w)"

text \<open>
  The \<^verbatim>\<open>try\<close> block of \<^verbatim>\<open>anonymize_csv\<close> (lines 163 to 209): the exception that
  ended it, if any, the lines written to the output file (\<open>None\<close> when the file was
  never opened) and the log. The header is the first line; with no line at all
  \<^verbatim>\<open>reader.fieldnames\<close> is \<^verbatim>\<open>None\<close> and \<^verbatim>\<open>writeheader\<close> raises \<^verbatim>\<open>TypeError\<close>.
\<close>

definition csv_body :: "lib \<Rightarrow> csv_io \<Rightarrow> string \<Rightarrow> config \<Rightarrow> world
    \<Rightarrow> exn option \<times> string list list option \<times> world" where
  "csv_body L io encoding cfg w =
     (case csv_src io encoding of
        Inl e \<Rightarrow> (Some e, None, w)
      | Inr lines \<Rightarrow>
          (case csv_dst_fails io encoding of
             Some e \<Rightarrow> (Some e, None, w)
           | None \<Rightarrow>
               (case lines of
                  [] \<Rightarrow> (Some TypeError, Some [], w)
                | Inl e # rest \<Rightarrow> (Some e, Some [], w)
                | Inr fieldnames # rest \<Rightarrow>
                    (case csv_write io encoding fieldnames of
                       Some e \<Rightarrow> (Some e, Some [], w)
                     | None \<Rightarrow>
                         (case csv_rows L cfg (csv_write io encoding) fieldnames rest
                                 [fieldnames] w of
                            (ex, out, w') \<Rightarrow> (ex, Some out, w'))))))"

text \<open>
  \<^verbatim>\<open>anonymize_csv\<close>: what the output file holds and the log. It returns normally on
  every path: both \<^verbatim>\<open>except\<close> clauses only log.
\<close>

definition anonymize_csv :: "lib \<Rightarrow> csv_io \<Rightarrow> config \<Rightarrow> world \<Rightarrow> string list list option \<times> world" where
  "anonymize_csv L io cfg w =
     (case csv_start io w of
        (encoding, w2) \<Rightarrow>
          (case csv_body L io encoding cfg w2 of
             (None, out, w3) \<Rightarrow> (out, w3)
           | (Some e, out, w3) \<Rightarrow> (out, csv_except e w3)))"

section \<open>The XML adapter\<close>

text \<open>
  An element of \<^verbatim>\<open>xml.etree.ElementTree\<close>. The code tells two elements apart by object
  identity (\<^verbatim>\<open>child is element\<close>), so every element carries an identifier, different
  for different elements of a parsed tree.
\<close>

datatype xml =
  Elem (eid: nat) (tag: string) (attrib: "(string \<times> string) list")
       (etext: "string option") (etail: "string option") (children: "xml list")

text \<open>\<^verbatim>\<open>root.iter()\<close>: the element itself, then its descendants in document order.\<close>

fun iter :: "xml \<Rightarrow> xml list" where
  "iter (Elem i t a x y cs) = Elem i t a x y cs # concat (map iter cs)"

text \<open>
  \<^verbatim>\<open>find_parent\<close>: the first element in document order that has the given element
  among its children.
\<close>

definition find_parent :: "xml \<Rightarrow> nat \<Rightarrow> nat option" where
  "find_parent rt e =
     map_option eid (find (\<lambda>parent. e \<in> set (map eid (children parent))) (iter rt))"

definition find_elem :: "xml \<Rightarrow> nat \<Rightarrow> xml option" where
  "find_elem rt e = find (\<lambda>x. eid x = e) (iter rt)"

text \<open>\<^verbatim>\<open>element.text = v\<close> for the element with identifier \<open>e\<close>, seen from the root.\<close>

fun set_text :: "nat \<Rightarrow> string \<Rightarrow> xml \<Rightarrow> xml" where
  "set_text e v (Elem i t a x y cs) =
     (if i = e then Elem i t a (Some v) y cs
      else Elem i t a x y (map (set_text e v) cs))"

text \<open>\<^verbatim>\<open>parent.remove(element)\<close> drops the first child that is the element.\<close>

fun remove_first :: "nat \<Rightarrow> xml list \<Rightarrow> xml list" where
  "remove_first e [] = []"
| "remove_first e (c # cs) = (if eid c = e then cs else c # remove_first e cs)"

fun remove_child :: "nat \<Rightarrow> nat \<Rightarrow> xml \<Rightarrow> xml" where
  "remove_child p e (Elem i t a x y cs) =
     (if i = p then Elem i t a x y (remove_first e cs)
      else Elem i t a x y (map (remove_child p e) cs))"

text \<open>
  The body of the inner loop (lines 233 to 266) for one matched element: the tree after
  it, or the exception that leaves the loops. An assignment to the text of an element
  that an earlier removal detached does not reach the tree.
\<close>

definition xml_element :: "lib \<Rightarrow> string \<Rightarrow> rule \<Rightarrow> nat \<Rightarrow> xml \<Rightarrow> world \<Rightarrow> (exn + xml) \<times> world" where
  "xml_element L path r e rt w =
    (if truthy (regex r) then
       (case find_elem rt e of
          None \<Rightarrow> (Inr rt, w)
        | Some el \<Rightarrow>
            (if truthy (etext el) then
               (case re_sub L (the (regex r)) (get_placeholder r) (the (etext el)) of
                  Inr s' \<Rightarrow> (Inr (set_text e s' rt), w)
                | Inl ex \<Rightarrow>
                    if ex = ReError then (Inr rt, emit ERROR (InvalidRegex path) w)
                    else (Inl ex, w))
             else (Inr rt, w)))
     else if get_action r = ''replace'' then
       (if get_placeholder r = ''fake.name'' then
          (case call_fake L ''name'' w of (v, w') \<Rightarrow> (Inr (set_text e v rt), w'))
        else if get_placeholder r = ''fake.email'' then
          (case call_fake L ''email'' w of (v, w') \<Rightarrow> (Inr (set_text e v rt), w'))
        else if get_placeholder r = ''fake.address'' then
          (case call_fake L ''address'' w of (v, w') \<Rightarrow> (Inr (set_text e v rt), w'))
        else if get_placeholder r = ''fake.phone_number'' then
          (case call_fake L ''phone_number'' w of (v, w') \<Rightarrow> (Inr (set_text e v rt), w'))
        else if get_placeholder r = ''fake.date'' then
          (case call_fake L ''date'' w of (v, w') \<Rightarrow> (Inr (set_text e v rt), w'))
        else (Inr (set_text e (get_placeholder r) rt), w))
     else if get_action r = ''remove'' then
       (case find_parent rt e of
          Some p \<Rightarrow> (Inr (remove_child p e rt), w)
        | None \<Rightarrow> (Inr rt, emit WARNING (NoParent path) w))
     else (Inr rt, emit WARNING (UnknownAction (get_action r) path) w))"

text \<open>The loop \<^verbatim>\<open>for element in elements\<close>.\<close>

fun xml_elements :: "lib \<Rightarrow> string \<Rightarrow> rule \<Rightarrow> nat list \<Rightarrow> xml \<Rightarrow> world \<Rightarrow> (exn + xml) \<times> world" where
  "xml_elements L path r [] rt w = (Inr rt, w)"
| "xml_elements L path r (e # es) rt w =
     (case xml_element L path r e rt w of
        (Inl ex, w') \<Rightarrow> (Inl ex, w')
      | (Inr rt', w') \<Rightarrow> xml_elements L path r es rt' w')"

text \<open>
  The loop \<^verbatim>\<open>for element_path, rule in config.items()\<close>. \<^verbatim>\<open>root.findall\<close> is the
  library's path language, a parameter: the identifiers of the matching elements of
  the tree as it is now, or the exception for a path it rejects.
\<close>

fun xml_rules :: "lib \<Rightarrow> (xml \<Rightarrow> string \<Rightarrow> exn + nat list) \<Rightarrow> config \<Rightarrow> xml \<Rightarrow> world
    \<Rightarrow> (exn + xml) \<times> world" where
  "xml_rules L findall [] rt w = (Inr rt, w)"
| "xml_rules L findall ((path, r) # cfg) rt w =
     (case findall rt path of
        Inl ex \<Rightarrow> (Inl ex, w)
      | Inr elements \<Rightarrow>
          (case xml_elements L path r elements rt w of
             (Inl ex, w') \<Rightarrow> (Inl ex, w')
           | (Inr rt', w') \<Rightarrow> xml_rules L findall cfg rt' w'))"

record xml_io =
  xml_src :: "exn + xml"
  findall :: "xml \<Rightarrow> string \<Rightarrow> exn + nat list"
  xml_dst_fails :: "exn option"

definition xml_except :: "exn \<Rightarrow> world \<Rightarrow> world" where
  "xml_except e w =
     (if e = FileNotFoundError then emit ERROR InputNotFound w
      else if e = ParseError then emit ERROR XmlParseError w
      else emit ERROR XmlError w)"

text \<open>
  \<^verbatim>\<open>anonymize_xml\<close>: the tree written to the output file (\<open>None\<close> when nothing was
  written) and the log. Like the CSV adapter it returns normally on every path.
\<close>

definition anonymize_xml :: "lib \<Rightarrow> xml_io \<Rightarrow> config \<Rightarrow> world \<Rightarrow> xml option \<times> world" where
  "anonymize_xml L io cfg w =
     (case xml_src io of
        Inl e \<Rightarrow> (None, xml_except e w)
      | Inr rt \<Rightarrow>
          (case xml_rules L (findall io) cfg rt w of
             (Inl e, w') \<Rightarrow> (None, xml_except e w')
           | (Inr rt', w') \<Rightarrow>
               (case xml_dst_fails io of
                  Some e \<Rightarrow> (None, xml_except e w')
                | None \<Rightarrow> (Some rt', w'))))"

section \<open>The main function\<close>

text \<open>
  What \<^verbatim>\<open>main\<close> gets from outside: the parsed command line (whether \<^verbatim>\<open>--config\<close>
  was given, the format), the outcome of opening and loading the configuration file,
  whether the input file exists, and the files of the three adapters.
\<close>

datatype format = FJson | FCsv | FXml

record os =
  config_given :: bool
  config_src :: "exn + config"
  input_exists :: bool
  fmt :: format
  json_src :: "exn + json"
  json_dst_fails :: "exn option"
  csv_files :: csv_io
  xml_files :: xml_io

datatype written = NoOutput | JsonOut json | CsvOut "string list list" | XmlOut xml

text \<open>
  \<^verbatim>\<open>load_config\<close> answers \<^verbatim>\<open>None\<close> for a missing file and for invalid JSON; any
  other exception leaves it.
\<close>

definition load_config :: "exn + config \<Rightarrow> world \<Rightarrow> (exn + config option) \<times> world" where
  "load_config src w =
     (case src of
        Inr cfg \<Rightarrow> (Inr (Some cfg), w)
      | Inl e \<Rightarrow>
          if e = FileNotFoundError then (Inr None, emit ERROR ConfigNotFound w)
          else if e = JSONDecodeError then (Inr None, emit ERROR ConfigInvalid w)
          else (Inl e, w))"

text \<open>
  The \<^verbatim>\<open>try\<close> block of \<^verbatim>\<open>main\<close> (lines 308 to 341): the exit code, what was written,
  and the log. Falling off the end of \<^verbatim>\<open>main\<close> is exit code 0; \<^verbatim>\<open>exit(1)\<close> raises
  \<^verbatim>\<open>SystemExit\<close>, which \<^verbatim>\<open>except Exception\<close> does not catch.
\<close>

definition run_format :: "lib \<Rightarrow> os \<Rightarrow> config option \<Rightarrow> world \<Rightarrow> nat \<times> written \<times> world" where
  "run_format L os cfg w =
     (case fmt os of
        FJson \<Rightarrow>
          (case json_src os of
             Inl e \<Rightarrow>
               if e = JSONDecodeError then (1, NoOutput, emit ERROR JsonDecodeFailed w)
               else (1, NoOutput, emit ERROR Failed w)
           | Inr data \<Rightarrow>
               (case cfg of
                  None \<Rightarrow> (1, NoOutput, emit ERROR ConfigRequired w)
                | Some c \<Rightarrow>
                    (case anonymize_json L c data w of
                       (Inl e, w') \<Rightarrow> (1, NoOutput, emit ERROR Failed w')
                     | (Inr d, w') \<Rightarrow>
                         (case json_dst_fails os of
                            Some e \<Rightarrow> (1, NoOutput, emit ERROR Failed w')
                          | None \<Rightarrow> (0, JsonOut d, emit INFO Saved w')))))
      | FCsv \<Rightarrow>
          (case cfg of
             None \<Rightarrow> (1, NoOutput, emit ERROR ConfigRequired w)
           | Some c \<Rightarrow>
               (case anonymize_csv L (csv_files os) c w of
                  (out, w') \<Rightarrow>
                    (0, (case out of None \<Rightarrow> NoOutput | Some rows \<Rightarrow> CsvOut rows),
                     emit INFO Saved w')))
      | FXml \<Rightarrow>
          (case cfg of
             None \<Rightarrow> (1, NoOutput, emit ERROR ConfigRequired w)
           | Some c \<Rightarrow>
               (case anonymize_xml L (xml_files os) c w of
                  (out, w') \<Rightarrow>
                    (0, (case out of None \<Rightarrow> NoOutput | Some t \<Rightarrow> XmlOut t),
                     emit INFO Saved w'))))"

text \<open>
  \<^verbatim>\<open>main\<close>. An exception that leaves \<^verbatim>\<open>load_config\<close> is caught by nothing and ends
  the interpreter with exit code 1.
\<close>

definition main :: "lib \<Rightarrow> os \<Rightarrow> world \<Rightarrow> nat \<times> written \<times> world" where
  "main L os w =
     (if config_given os then
        (case load_config (config_src os) w of
           (Inl e, w') \<Rightarrow> (1, NoOutput, w')
         | (Inr None, w') \<Rightarrow> (1, NoOutput, w')
         | (Inr (Some cfg), w') \<Rightarrow>
             if \<not> input_exists os then (1, NoOutput, emit ERROR InputMissing w')
             else run_format L os (Some cfg) w')
      else if \<not> input_exists os then (1, NoOutput, emit ERROR InputMissing w)
      else run_format L os None w)"

section \<open>Concrete libraries for the examples\<close>

text \<open>
  The theorems below hold for every \<open>lib\<close> and every \<open>findall\<close>. Their closed
  examples need concrete ones. \<open>re_sub_frag\<close> is \<^verbatim>\<open>re.sub\<close> on a fragment of the
  pattern language: a pattern is a sequence of literal characters and \<^verbatim>\<open>\d\<close>, each
  optionally followed by \<^verbatim>\<open>*\<close> or \<^verbatim>\<open>+\<close>, and a replacement has no backslash. On
  the fragment it follows CPython: leftmost match, greedy repetition with backtracking,
  and an empty match is replaced too unless it ends where the search for it started
  after another empty match. Anything outside the fragment is answered with
  \<open>ReError\<close>, which is what Python does for the malformed patterns used below
  (an unbalanced parenthesis, a repetition of nothing).
\<close>

datatype atom = Ch char | Digit

datatype quant = One | Star | Plus

datatype tok = TAtom atom | TStar | TPlus | TBad

definition backslash :: char where
  "backslash = CHR 0x5C"

definition special :: "char \<Rightarrow> bool" where
  "special c = (c \<in> set ''.^$*+?{}[]|()'' \<or> c = backslash)"

fun lex :: "string \<Rightarrow> tok list" where
  "lex [] = []"
| "lex [c] =
     (if c = CHR ''*'' then [TStar] else if c = CHR ''+'' then [TPlus]
      else if special c then [TBad] else [TAtom (Ch c)])"
| "lex (c # d # cs) =
     (if c = backslash then (if d = CHR ''d'' then TAtom Digit # lex cs else [TBad])
      else if c = CHR ''*'' then TStar # lex (d # cs)
      else if c = CHR ''+'' then TPlus # lex (d # cs)
      else if special c then [TBad]
      else TAtom (Ch c) # lex (d # cs))"

fun parse :: "tok list \<Rightarrow> (atom \<times> quant) list option" where
  "parse [] = Some []"
| "parse (TAtom a # TStar # ts) = map_option ((#) (a, Star)) (parse ts)"
| "parse (TAtom a # TPlus # ts) = map_option ((#) (a, Plus)) (parse ts)"
| "parse (TAtom a # ts) = map_option ((#) (a, One)) (parse ts)"
| "parse (t # ts) = None"

fun atom_ok :: "atom \<Rightarrow> char \<Rightarrow> bool" where
  "atom_ok (Ch c) x = (x = c)"
| "atom_ok Digit x = (x \<in> set ''0123456789'')"

text \<open>
  The lengths of all matches of the items at the start of the string, in the order in
  which the backtracking matcher finds them: a repetition tries the most first.
\<close>

fun matches :: "(atom \<times> quant) list \<Rightarrow> string \<Rightarrow> nat list" where
  "matches [] s = [0]"
| "matches ((a, One) # its) s =
     (case s of [] \<Rightarrow> [] | c # cs \<Rightarrow> if atom_ok a c then map Suc (matches its cs) else [])"
| "matches ((a, Star) # its) s =
     concat (map (\<lambda>n. map ((+) n) (matches its (drop n s)))
       (rev [0 ..< Suc (length (takeWhile (atom_ok a) s))]))"
| "matches ((a, Plus) # its) s =
     concat (map (\<lambda>n. map ((+) n) (matches its (drop n s)))
       (rev [1 ..< Suc (length (takeWhile (atom_ok a) s))]))"

text \<open>
  The substitution loop, one position of the string at a time; \<open>skip\<close> counts the
  characters of the current match still to pass over.
\<close>

fun sub_from :: "(atom \<times> quant) list \<Rightarrow> string \<Rightarrow> nat \<Rightarrow> string \<Rightarrow> string" where
  "sub_from its repl skip [] =
     (if skip = 0 \<and> 0 \<in> set (matches its []) then repl else [])"
| "sub_from its repl skip (c # cs) =
     (if skip > 0 then sub_from its repl (skip - 1) cs
      else
        (case matches its (c # cs) of
           [] \<Rightarrow> c # sub_from its repl 0 cs
         | n # ms \<Rightarrow>
             if n > 0 then repl @ sub_from its repl (n - 1) cs
             else
               repl @
               (case filter (\<lambda>m. m > 0) ms of
                  [] \<Rightarrow> c # sub_from its repl 0 cs
                | n' # _ \<Rightarrow> repl @ sub_from its repl (n' - 1) cs)))"

definition re_sub_frag :: "string \<Rightarrow> string \<Rightarrow> string \<Rightarrow> exn + string" where
  "re_sub_frag pattern repl s =
     (case parse (lex pattern) of
        None \<Rightarrow> Inl ReError
      | Some its \<Rightarrow> if backslash \<in> set repl then Inl ReError else Inr (sub_from its repl 0 s))"

text \<open>A Faker that answers every call with the category and the number of the call.\<close>

definition fake_fixed :: "string list \<Rightarrow> string \<Rightarrow> string" where
  "fake_fixed calls cat = cat @ replicate (length calls) (CHR ''+'')"

definition py_lib :: lib where
  "py_lib = \<lparr>re_sub = re_sub_frag, fake = fake_fixed\<rparr>"

text \<open>
  \<^verbatim>\<open>root.findall\<close> on two kinds of path: \<^verbatim>\<open>.\<close> selects the root itself and a plain
  tag name selects the children of the root with that tag. Other paths are answered
  with an exception, as the library does for a path it rejects.
\<close>

definition plain_tag :: "string \<Rightarrow> bool" where
  "plain_tag p =
     (p \<noteq> [] \<and>
      list_all (\<lambda>c. c \<in> set ''abcdefghijklmnopqrstuvwxyzABCDEFGHIJKLMNOPQRSTUVWXYZ0123456789_'') p)"

definition findall_frag :: "xml \<Rightarrow> string \<Rightarrow> exn + nat list" where
  "findall_frag rt path =
     (if path = ''.'' then Inr [eid rt]
      else if plain_tag path then Inr (map eid (filter (\<lambda>c. tag c = path) (children rt)))
      else Inl OtherError)"

text \<open>
  Files for the examples: the encoding that was detected and the lines of the input,
  all of them readable. Writing a row fails when the output is opened as ASCII and a
  cell has a character beyond ASCII, as the codec of the library does.
\<close>

definition codec_write :: "string \<Rightarrow> string list \<Rightarrow> exn option" where
  "codec_write encoding row =
     (if encoding = ''ascii'' \<and> list_ex (\<lambda>c. 128 \<le> (of_char c :: nat)) (concat row)
      then Some UnicodeEncodeError else None)"

definition csv_file :: "string \<Rightarrow> string list list \<Rightarrow> csv_io" where
  "csv_file encoding lines =
     \<lparr>detected = Inr (Some encoding), csv_src = (\<lambda>_. Inr (map Inr lines)),
      csv_dst_fails = (\<lambda>_. None), csv_write = codec_write\<rparr>"

definition w0 :: world where
  "w0 = \<lparr>logs = [], fake_calls = []\<rparr>"

section \<open>Notions used in the statements\<close>


text \<open>
  A place in a document: the keys and array positions that lead to it. A field at any
  nesting depth is the value at such a path.
\<close>

datatype step = Key string | Idx nat

fun json_at :: "json \<Rightarrow> step list \<Rightarrow> json option" where
  "json_at v [] = Some v"
| "json_at (JObj items) (Key k # p) =
     (case map_of items k of None \<Rightarrow> None | Some v \<Rightarrow> json_at v p)"
| "json_at (JArr xs) (Idx i # p) = (if i < length xs then json_at (xs ! i) p else None)"
| "json_at v (s # p) = None"


fun is_scalar :: "json \<Rightarrow> bool" where
  "is_scalar (JObj items) = False"
| "is_scalar (JArr xs) = False"
| "is_scalar v = True"










text \<open>
  The elements of a tree, each with the identifiers of the elements it lies beneath,
  nearest first.
\<close>

fun iter_anc :: "nat list \<Rightarrow> xml \<Rightarrow> (nat list \<times> xml) list" where
  "iter_anc anc (Elem i t a x y cs) =
     (anc, Elem i t a x y cs) # concat (map (iter_anc (i # anc)) cs)"


section \<open>Properties\<close>

subsection \<open>Removal from a JSON object\<close>

lemma items_size_changed:
  "length data \<noteq> used \<Longrightarrow> anonymize_items L cfg used rest data w = (Inl RuntimeError, w)"
  by (cases rest) auto

lemma length_dict_del: "k \<in> fst ` set d \<Longrightarrow> Suc (length (dict_del k d)) = length d"
  by (induction d) force+

lemma json_rule_remove:
  "\<not> truthy (regex r) \<Longrightarrow> get_action r = ''remove'' \<Longrightarrow>
   json_rule L r key val data w = (Inr (dict_del key data), w)"
  by (simp add: json_rule_def)

text \<open>
  C3 says that a key whose rule resolves to remove is deleted and that the remaining
  keys of the object are then processed normally. The code deletes the key while it
  iterates over the same dict, so the iterator's next step raises
  \<^verbatim>\<open>RuntimeError\<close>: whenever the loop reaches a key of the object whose rule is a
  removal, the loop ends with that exception, whatever keys follow.
\<close>

theorem json_remove_raises:
  assumes "map_of cfg key = Some r" and "\<not> truthy (regex r)" and "get_action r = ''remove''"
    and "key \<in> fst ` set data"
  shows "anonymize_items L cfg (length data) ((key, val) # rest) data w = (Inl RuntimeError, w)"
proof -
  have "length (dict_del key data) \<noteq> length data"
    using length_dict_del [OF assms(4)] by simp
  then have "anonymize_items L cfg (length data) rest (dict_del key data) w = (Inl RuntimeError, w)"
    by (rule items_size_changed)
  then show ?thesis
    using assms(1) json_rule_remove [OF assms(2,3)] by simp
qed

theorem json_remove_raises_witness:
  "anonymize_json py_lib
     [(''email'', \<lparr>action = Some ''remove'', placeholder = None, regex = None\<rparr>)]
     (JObj [(''email'', JStr ''a@b.com''), (''name'', JStr ''Alice'')]) w0
   = (Inl RuntimeError, w0)"
  using json_remove_raises
    [of "[(''email'', \<lparr>action = Some ''remove'', placeholder = None, regex = None\<rparr>)]"
      "''email''" "\<lparr>action = Some ''remove'', placeholder = None, regex = None\<rparr>"
      "[(''email'', JStr ''a@b.com''), (''name'', JStr ''Alice'')]" py_lib "JStr ''a@b.com''"
      "[(''name'', JStr ''Alice'')]" w0]
  by (simp add: truthy_def get_action_def)

subsection \<open>Fields without a rule in a JSON document\<close>

lemma map_of_dict_set: "map_of (dict_set k v d) k = Some v"
  by (induction d) auto




lemma map_of_dict_set_other: "k' \<noteq> k \<Longrightarrow> map_of (dict_set k v d) k' = map_of d k'"
  by (induction d) auto

lemma map_of_dict_del_other: "k' \<noteq> k \<Longrightarrow> map_of (dict_del k d) k' = map_of d k'"
  by (induction d) auto

lemma json_rule_other:
  "json_rule L r key val data w = (Inr d', w') \<Longrightarrow> k \<noteq> key \<Longrightarrow> map_of d' k = map_of data k"
  by (auto simp: json_rule_def call_fake_def map_of_dict_set_other map_of_dict_del_other
      split: if_splits json.splits sum.splits)






subsection \<open>A regex in the rule\<close>

lemma digits_sub: "re_sub_frag (backslash # ''d+'') ''#'' ''abc123'' = Inr ''abc#''"
  by (simp add: re_sub_frag_def backslash_def special_def)

text \<open>
  C1, as amended: when the rule's regex is present and not empty, a string value on
  which the substitution succeeds is replaced by the substituted string, whatever the
  action is, removal included; the action is not applied. This is so in the JSON and in
  the CSV adapter.
\<close>

theorem regex_precedence:
  assumes "truthy (regex r)" and "re_sub L (the (regex r)) (get_placeholder r) s = Inr s'"
  shows "json_rule L r key (JStr s) data w = (Inr (dict_set key (JStr s') data), w)
       \<and> map_of (dict_set key (JStr s') data) key = Some (JStr s')
       \<and> csv_rule L r key (Some s) w = (Inr (Some s'), w)"
  using assms by (simp add: json_rule_def csv_rule_def map_of_dict_set)

theorem regex_precedence_witness:
  "truthy (regex \<lparr>action = Some ''remove'', placeholder = Some ''#'', regex = Some (backslash # ''d+'')\<rparr>)
   \<and> re_sub py_lib (backslash # ''d+'') ''#'' ''abc123'' = Inr ''abc#''
   \<and> anonymize_json py_lib
        [(''id'', \<lparr>action = Some ''remove'', placeholder = Some ''#'', regex = Some (backslash # ''d+'')\<rparr>)]
        (JObj [(''id'', JStr ''abc123'')]) w0
      = (Inr (JObj [(''id'', JStr ''abc#'')]), w0)
   \<and> csv_rule py_lib \<lparr>action = Some ''remove'', placeholder = Some ''#'', regex = Some (backslash # ''d+'')\<rparr>
        ''id'' (Some ''abc123'') w0 = (Inr (Some ''abc#''), w0)"
  using regex_precedence
    [of "\<lparr>action = Some ''remove'', placeholder = Some ''#'', regex = Some (backslash # ''d+'')\<rparr>"
      py_lib "''abc123''" "''abc#''" "''id''" "[(''id'', JStr ''abc123'')]" w0]
    digits_sub
  by (simp add: truthy_def get_placeholder_def py_lib_def)

text \<open>
  C1 as stated speaks of every rule that contains a regex. The code tests the regex
  with \<^verbatim>\<open>if regex:\<close>, which an empty pattern fails: with the rule
  \<^verbatim>\<open>{action: remove, regex: "", placeholder: "#"}\<close> the cell \<^verbatim>\<open>abc\<close> is removed, while
  the substitution of the empty pattern would give \<^verbatim>\<open>#a#b#c#\<close>.
\<close>

theorem empty_regex_counterexample:
  "regex \<lparr>action = Some ''remove'', placeholder = Some ''#'', regex = Some ''''\<rparr> = Some ''''
   \<and> re_sub py_lib '''' ''#'' ''abc'' = Inr ''#a#b#c#''
   \<and> csv_rule py_lib \<lparr>action = Some ''remove'', placeholder = Some ''#'', regex = Some ''''\<rparr>
        ''id'' (Some ''abc'') w0 = (Inr (Some ''''), w0)"
  by (simp add: py_lib_def re_sub_frag_def csv_rule_def truthy_def get_action_def backslash_def)







subsection \<open>Keys that have a rule are not traversed\<close>

lemma items_length:
  "anonymize_items L cfg used rest data w = (Inr out, w') \<Longrightarrow> length data = used"
  using items_size_changed [of data used L cfg rest w] by auto

lemma dict_del_absent: "k \<notin> fst ` set d \<Longrightarrow> dict_del k d = d"
  by (induction d) auto

lemma json_rule_shapes:
  assumes "json_rule L r key val data w = (Inr d1, w1)"
  shows "d1 = data \<or> (\<exists>s. d1 = dict_set key (JStr s) data) \<or> d1 = dict_set key JNull data
       \<or> d1 = dict_del key data"
  using assms
  by (auto simp: json_rule_def call_fake_def split: if_splits json.splits sum.splits)

lemma json_rule_cases:
  assumes "json_rule L r key val data w = (Inr d1, w1)"
  shows "d1 = data \<or> (\<exists>v'. is_scalar v' \<and> d1 = dict_set key v' data) \<or> d1 = dict_del key data"
proof -
  have "is_scalar (JStr s)" for s by simp
  moreover have "is_scalar JNull" by simp
  ultimately show ?thesis using json_rule_shapes [OF assms] by blast
qed

lemma json_rule_degrade:
  assumes "truthy (regex r) \<and> (\<forall>s. val \<noteq> JStr s)
         \<or> \<not> truthy (regex r) \<and> get_action r \<noteq> ''replace'' \<and> get_action r \<noteq> ''remove''"
  shows "\<exists>m. json_rule L r key val data w = (Inr data, emit WARNING m w)"
  using assms by (auto simp: json_rule_def split: json.splits)

lemma items_untouched:
  "anonymize_items L cfg used rest data w = (Inr out, w') \<Longrightarrow> k \<notin> fst ` set rest \<Longrightarrow>
   map_of out k = map_of data k"
proof (induction rest arbitrary: data w)
  case Nil
  then show ?case by (auto split: if_splits)
next
  case (Cons kv rest)
  obtain key val where kv: "kv = (key, val)" by (cases kv)
  from Cons.prems(2) kv have ne: "k \<noteq> key" and nr: "k \<notin> fst ` set rest" by auto
  from Cons.prems(1) kv obtain d1 w1 where
    rest: "anonymize_items L cfg used rest d1 w1 = (Inr out, w')"
    and d1: "map_of d1 k = map_of data k"
    using ne
    by (auto simp: map_of_dict_set_other json_rule_other
        split: if_splits option.splits prod.splits sum.splits json.splits)
  from Cons.IH [OF rest nr] d1 show ?case by simp
qed

lemma items_ruled:
  assumes "anonymize_items L cfg used rest data w = (Inr out, w')"
    and "distinct (map fst rest)" and "map_of rest key = Some val" and "map_of cfg key = Some r"
    and "map_of data key = Some val"
  shows "(\<exists>v'. map_of out key = Some v' \<and> (v' = val \<or> is_scalar v'))
       \<and> ((truthy (regex r) \<and> (\<forall>s. val \<noteq> JStr s)
            \<or> \<not> truthy (regex r) \<and> get_action r \<noteq> ''replace'' \<and> get_action r \<noteq> ''remove'')
           \<longrightarrow> map_of out key = Some val)"
  using assms
proof (induction rest arbitrary: data w)
  case Nil
  then show ?case by simp
next
  case (Cons kv rest)
  obtain k0 v0 where kv: "kv = (k0, v0)" by (cases kv)
  from Cons.prems(2) kv have fresh: "k0 \<notin> fst ` set rest" and dist: "distinct (map fst rest)"
    by simp_all
  have len: "length data = used" using Cons.prems(1) by (rule items_length)
  show ?case
  proof (cases "k0 = key")
    case True
    with Cons.prems(3) kv have v0: "v0 = val" by simp
    from Cons.prems(1) kv True v0 Cons.prems(4) len obtain d1 w1 where
      step: "json_rule L r key val data w = (Inr d1, w1)"
      and rest: "anonymize_items L cfg used rest d1 w1 = (Inr out, w')"
      by (auto split: prod.splits sum.splits)
    have out: "map_of out key = map_of d1 key"
      using items_untouched [OF rest] fresh True by simp
    have len1: "length d1 = used" using rest by (rule items_length)
    have "key \<in> fst ` set data" using Cons.prems(5) by (metis domI dom_map_of_conv_image_fst)
    then have "d1 \<noteq> dict_del key data" using length_dict_del [of key data] len len1 by auto
    with json_rule_cases [OF step]
    have c: "d1 = data \<or> (\<exists>v'. is_scalar v' \<and> d1 = dict_set key v' data)" by blast
    have a: "\<exists>v'. map_of out key = Some v' \<and> (v' = val \<or> is_scalar v')"
      using c out Cons.prems(5) by (auto simp: map_of_dict_set)
    have b: "(truthy (regex r) \<and> (\<forall>s. val \<noteq> JStr s)
            \<or> \<not> truthy (regex r) \<and> get_action r \<noteq> ''replace'' \<and> get_action r \<noteq> ''remove'')
           \<longrightarrow> map_of out key = Some val"
    proof
      assume "truthy (regex r) \<and> (\<forall>s. val \<noteq> JStr s)
            \<or> \<not> truthy (regex r) \<and> get_action r \<noteq> ''replace'' \<and> get_action r \<noteq> ''remove''"
      from json_rule_degrade [OF this, of L key data w] step have "d1 = data" by auto
      then show "map_of out key = Some val" using out Cons.prems(5) by simp
    qed
    from a b show ?thesis by blast
  next
    case False
    with Cons.prems(3) kv have inr: "map_of rest key = Some val" by simp
    from Cons.prems(1) kv False obtain d1 w1 where
      rest: "anonymize_items L cfg used rest d1 w1 = (Inr out, w')"
      and d1: "map_of d1 key = map_of data key"
      by (auto simp: map_of_dict_set_other json_rule_other
          split: if_splits option.splits prod.splits sum.splits json.splits)
    from Cons.IH [OF rest dist inr Cons.prems(4)] d1 Cons.prems(5) show ?thesis by simp
  qed
qed

text \<open>
  C10: when a key of an object has a rule and the adapter returns, the value under that
  key in the result is the value it had, identical in its whole interior, or a scalar
  that replaced it; the adapter never descends into it. When the rule degrades to
  warn-and-keep (a regex on a value that is not a string, or an unknown action), it is
  the value it had.
\<close>

theorem ruled_key_not_traversed:
  assumes "anonymize_json L cfg (JObj items) w = (Inr d', w')" and "distinct (map fst items)"
    and "map_of items key = Some val" and "map_of cfg key = Some r"
  shows "(\<exists>v'. json_at d' [Key key] = Some v' \<and> (v' = val \<or> is_scalar v'))
       \<and> ((truthy (regex r) \<and> (\<forall>s. val \<noteq> JStr s)
            \<or> \<not> truthy (regex r) \<and> get_action r \<noteq> ''replace'' \<and> get_action r \<noteq> ''remove'')
           \<longrightarrow> json_at d' [Key key] = Some val)"
proof -
  from assms(1) obtain out where
    out: "anonymize_items L cfg (length items) items items w = (Inr out, w')" and d': "d' = JObj out"
    by (auto split: prod.splits sum.splits)
  from items_ruled [OF out assms(2,3,4,3)] show ?thesis
    unfolding d' by (auto split: option.splits)
qed

theorem ruled_key_not_traversed_witness:
  "anonymize_json py_lib
     [(''profile'', \<lparr>action = Some ''mask'', placeholder = None, regex = None\<rparr>),
      (''email'', \<lparr>action = Some ''replace'', placeholder = Some ''X'', regex = None\<rparr>)]
     (JObj [(''profile'', JObj [(''email'', JStr ''a@b.com'')])]) w0
   = (Inr (JObj [(''profile'', JObj [(''email'', JStr ''a@b.com'')])]),
      emit WARNING (UnknownAction ''mask'' ''profile'') w0)
   \<and> json_at (JObj [(''profile'', JObj [(''email'', JStr ''a@b.com'')])]) [Key ''profile'']
      = Some (JObj [(''email'', JStr ''a@b.com'')])"
  using ruled_key_not_traversed
    [of py_lib
      "[(''profile'', \<lparr>action = Some ''mask'', placeholder = None, regex = None\<rparr>),
        (''email'', \<lparr>action = Some ''replace'', placeholder = Some ''X'', regex = None\<rparr>)]"
      "[(''profile'', JObj [(''email'', JStr ''a@b.com'')])]" w0
      "JObj [(''profile'', JObj [(''email'', JStr ''a@b.com'')])]"
      "emit WARNING (UnknownAction ''mask'' ''profile'') w0"
      "''profile''" "JObj [(''email'', JStr ''a@b.com'')]"
      "\<lparr>action = Some ''mask'', placeholder = None, regex = None\<rparr>"]
  by (simp add: json_rule_def truthy_def get_action_def)

subsection \<open>Rows of a CSV file\<close>



lemma reader_row_nth:
  assumes "distinct h" and "i < length h"
  shows "map_of (dict_reader_row h row) (h ! i) = Some (if i < length row then Some (row ! i) else None)"
proof -
  let ?vs = "map Some row @ replicate (length h - length row) None"
  have len: "length h \<le> length ?vs" by simp
  have keys: "map fst (zip h ?vs) = h" using len by (simp add: map_fst_zip_take)
  have d: "distinct (map fst (dict_reader_row h row))"
    using assms(1) keys by (simp add: dict_reader_row_def rev_map [symmetric])
  have "i < length (zip h ?vs)" using assms(2) by simp
  then have "zip h ?vs ! i \<in> set (zip h ?vs)" by (rule nth_mem)
  moreover have "zip h ?vs ! i = (h ! i, ?vs ! i)" using assms(2) by simp
  ultimately have "(h ! i, ?vs ! i) \<in> set (dict_reader_row h row)"
    by (simp add: dict_reader_row_def)
  then have "map_of (dict_reader_row h row) (h ! i) = Some (?vs ! i)"
    using d by simp
  moreover have "?vs ! i = (if i < length row then Some (row ! i) else None)"
    using assms(2) by (simp add: nth_append)
  ultimately show ?thesis by simp
qed












subsection \<open>The shape of the CSV output\<close>




subsection \<open>A row shorter than the header\<close>

text \<open>
  C9 says that a row shorter than the header is processed and that the value of the
  missing column defaults to the empty string when the row is transformed and written.
  The row is processed, but \<^verbatim>\<open>csv.DictReader\<close> has already stored \<^verbatim>\<open>None\<close> under the
  missing column, so the default of \<^verbatim>\<open>row.get(field, "")\<close> never applies: a regex rule
  on the missing column meets a value that is not a string, logs a warning and keeps
  \<^verbatim>\<open>None\<close>, instead of substituting in the empty string.
\<close>

theorem missing_cell_regex_skipped:
  assumes "distinct h" and "i < length h" and "length row \<le> i"
    and "map_of cfg (h ! i) = Some r" and "truthy (regex r)"
  shows "csv_field L cfg (dict_reader_row h row) (h ! i) w
           = (Inr None, emit WARNING (RegexNeedsString (h ! i)) w)"
  using assms reader_row_nth [OF assms(1,2), of row]
  by (simp add: csv_field_def csv_rule_def row_get_def)

theorem missing_cell_regex_skipped_witness:
  "anonymize_csv py_lib
     (csv_file ''utf-8'' [[''a'', ''b''], [''1'']])
     [(''b'', \<lparr>action = None, placeholder = Some ''N'', regex = Some ''x*''\<rparr>)] w0
   = (Some [[''a'', ''b''], [''1'', []]], emit WARNING (RegexNeedsString ''b'') w0)
   \<and> anonymize_csv py_lib
     (csv_file ''utf-8'' [[''a'', ''b''], [''1'', []]])
     [(''b'', \<lparr>action = None, placeholder = Some ''N'', regex = Some ''x*''\<rparr>)] w0
   = (Some [[''a'', ''b''], [''1'', ''N'']], w0)"
  using missing_cell_regex_skipped
    [of "[''a'', ''b'']" 1 "[''1'']"
      "[(''b'', \<lparr>action = None, placeholder = Some ''N'', regex = Some ''x*''\<rparr>)]"
      "\<lparr>action = None, placeholder = Some ''N'', regex = Some ''x*''\<rparr>" py_lib w0]
  by (simp add: anonymize_csv_def csv_start_def csv_body_def csv_file_def codec_write_def
      detect_encoding_def dict_reader_row_def csv_field_def
      csv_rule_def row_index_def row_get_def writerow_def write_cell_def truthy_def
      get_placeholder_def py_lib_def re_sub_frag_def backslash_def special_def)


subsection \<open>Elements that no path matches\<close>















lemma iter_anc_elems: "(anc, x) \<in> set (iter_anc a t) \<Longrightarrow> x \<in> set (iter t)"
proof (induction t arbitrary: a)
  case (Elem i tg ab tx ty cs)
  from Elem.prems consider "x = Elem i tg ab tx ty cs"
    | c where "c \<in> set cs" "(anc, x) \<in> set (iter_anc (i # a) c)" by auto
  then show ?case
  proof cases
    case 1
    then show ?thesis by simp
  next
    case 2
    from Elem.IH [OF 2] 2(1) show ?thesis by auto
  qed
qed















subsection \<open>Fields without a rule\<close>




subsection \<open>The null placeholder\<close>

text \<open>
  C7: in the JSON adapter a rule with action replace, no regex and the placeholder
  \<^verbatim>\<open>null\<close> stores JSON null under the key, not the string; the CSV and XML adapters
  have no such branch and write the four characters.
\<close>

theorem null_placeholder_json_only:
  assumes "\<not> truthy (regex r)" and "get_action r = ''replace''" and "get_placeholder r = ''null''"
  shows "json_rule L r key val data w = (Inr (dict_set key JNull data), w)
       \<and> map_of (dict_set key JNull data) key = Some JNull
       \<and> csv_rule L r key c w = (Inr (Some ''null''), w)
       \<and> xml_element L key r e rt w = (Inr (set_text e ''null'' rt), w)"
  using assms by (simp add: json_rule_def csv_rule_def xml_element_def map_of_dict_set)

theorem null_placeholder_json_only_witness:
  "anonymize_json py_lib
     [(''age'', \<lparr>action = Some ''replace'', placeholder = Some ''null'', regex = None\<rparr>)]
     (JObj [(''age'', JInt 41)]) w0
   = (Inr (JObj [(''age'', JNull)]), w0)
   \<and> csv_rule py_lib \<lparr>action = Some ''replace'', placeholder = Some ''null'', regex = None\<rparr>
        ''age'' (Some ''41'') w0 = (Inr (Some ''null''), w0)"
  using null_placeholder_json_only
    [of "\<lparr>action = Some ''replace'', placeholder = Some ''null'', regex = None\<rparr>"
      py_lib "''age''" "JInt 41" "[(''age'', JInt 41)]" w0 "Some ''41''"]
  by (simp add: truthy_def get_action_def get_placeholder_def)

subsection \<open>Unknown actions\<close>

text \<open>
  C6: a rule with no regex whose action is neither replace nor remove leaves the value
  as it is, logs a warning and raises nothing, in each of the three adapters: the JSON
  dict, the CSV cell and the XML tree come back unchanged.
\<close>

theorem unknown_action_keeps:
  assumes "\<not> truthy (regex r)" and "get_action r \<noteq> ''replace''" and "get_action r \<noteq> ''remove''"
  shows "json_rule L r key val data w
           = (Inr data, emit WARNING (UnknownAction (get_action r) key) w)
       \<and> csv_rule L r key c w = (Inr c, emit WARNING (UnknownAction (get_action r) key) w)
       \<and> xml_element L key r e rt w
           = (Inr rt, emit WARNING (UnknownAction (get_action r) key) w)"
  using assms by (simp add: json_rule_def csv_rule_def xml_element_def)

theorem unknown_action_keeps_witness:
  "anonymize_json py_lib
     [(''name'', \<lparr>action = Some ''mask'', placeholder = Some ''X'', regex = None\<rparr>)]
     (JObj [(''name'', JStr ''Alice''), (''id'', JInt 7)]) w0
   = (Inr (JObj [(''name'', JStr ''Alice''), (''id'', JInt 7)]),
      emit WARNING (UnknownAction ''mask'' ''name'') w0)
   \<and> csv_rule py_lib \<lparr>action = Some ''mask'', placeholder = Some ''X'', regex = None\<rparr>
        ''name'' (Some ''Alice'') w0
      = (Inr (Some ''Alice''), emit WARNING (UnknownAction ''mask'' ''name'') w0)"
  using unknown_action_keeps
    [of "\<lparr>action = Some ''mask'', placeholder = Some ''X'', regex = None\<rparr>"
      py_lib "''name''" "JStr ''Alice''" "[(''name'', JStr ''Alice''), (''id'', JInt 7)]" w0
      "Some ''Alice''"]
  by (simp add: truthy_def get_action_def)

subsection \<open>Removing an XML element that has no parent\<close>

lemma child_in_tl_iter:
  "p \<in> set (iter t) \<Longrightarrow> c \<in> set (children p) \<Longrightarrow> c \<in> set (tl (iter t))"
proof (induction t arbitrary: p c)
  case (Elem i tg a x y cs)
  show ?case
  proof (cases "p = Elem i tg a x y cs")
    case True
    then have "c \<in> set cs" using Elem.prems by simp
    moreover have "c \<in> set (iter c)" by (cases c) simp
    ultimately show ?thesis by auto
  next
    case False
    then obtain k where k: "k \<in> set cs" "p \<in> set (iter k)" using Elem.prems by auto
    then have "c \<in> set (tl (iter k))" using Elem.IH Elem.prems by blast
    then have "c \<in> set (iter k)" by (cases k) auto
    then show ?thesis using k by auto
  qed
qed

lemma find_parent_root:
  assumes "distinct (map eid (iter rt))"
  shows "find_parent rt (eid rt) = None"
proof -
  have hd: "iter rt = rt # tl (iter rt)" by (cases rt) simp
  have "eid rt \<notin> eid ` set (tl (iter rt))"
    using assms hd by (metis distinct.simps(2) list.simps(9) set_map)
  then have "\<forall>p \<in> set (iter rt). eid rt \<notin> set (map eid (children p))"
    using child_in_tl_iter by fastforce
  then have "find (\<lambda>parent. eid rt \<in> set (map eid (children parent))) (iter rt) = None"
    by (simp add: find_None_iff)
  then show ?thesis by (simp add: find_parent_def)
qed

text \<open>
  C8: when a matched element's rule resolves to remove and \<^verbatim>\<open>find_parent\<close> locates no
  parent, the element loop logs a warning, leaves the tree as it is and goes on with
  the next element. The root of a tree whose elements are all different objects is
  such an element.
\<close>

theorem remove_without_parent_skips:
  assumes "\<not> truthy (regex r)" and "get_action r = ''remove''"
  shows "(find_parent rt e = None \<longrightarrow>
            xml_elements L path r (e # es) rt w =
              xml_elements L path r es rt (emit WARNING (NoParent path) w))
       \<and> (distinct (map eid (iter rt)) \<longrightarrow> find_parent rt (eid rt) = None)"
  using assms find_parent_root by (simp add: xml_element_def)

theorem remove_without_parent_skips_witness:
  "find_parent (Elem 0 ''a'' [] None None [Elem 1 ''b'' [] (Some ''x'') None []]) 0 = None
   \<and> distinct (map eid (iter (Elem 0 ''a'' [] None None [Elem 1 ''b'' [] (Some ''x'') None []])))
   \<and> xml_elements py_lib ''.'' \<lparr>action = Some ''remove'', placeholder = None, regex = None\<rparr> [0]
        (Elem 0 ''a'' [] None None [Elem 1 ''b'' [] (Some ''x'') None []]) w0
      = (Inr (Elem 0 ''a'' [] None None [Elem 1 ''b'' [] (Some ''x'') None []]),
         emit WARNING (NoParent ''.'') w0)"
  using remove_without_parent_skips
    [of "\<lparr>action = Some ''remove'', placeholder = None, regex = None\<rparr>"
      "Elem 0 ''a'' [] None None [Elem 1 ''b'' [] (Some ''x'') None []]" 0 py_lib "''.''" "[]" w0]
  by (simp add: truthy_def get_action_def find_parent_def)

subsection \<open>The exit code after a failure in the CSV or XML adapter\<close>

text \<open>
  C4 says that a malformed input document or an I/O failure ends the run with a
  non-zero exit code. For the formats CSV and XML the adapter catches every exception
  and only logs it, and \<^verbatim>\<open>main\<close> then logs success and returns: once the
  configuration is loaded and the input file exists, the exit code is 0 whatever
  happens inside the adapter.
\<close>

theorem swallowed_failure_exit_zero:
  assumes "fmt os \<noteq> FJson" and "config_given os" and "config_src os = Inr cfg"
    and "input_exists os"
  shows "fst (main L os w) = 0"
  using assms
  by (cases "fmt os")
     (simp_all add: main_def load_config_def run_format_def split: prod.splits)

theorem swallowed_failure_exit_zero_witness:
  "main py_lib
     \<lparr>config_given = True, config_src = Inr [], input_exists = True, fmt = FXml,
      json_src = Inl OtherError, json_dst_fails = None,
      csv_files = csv_file ''utf-8'' [],
      xml_files = \<lparr>xml_src = Inl ParseError, findall = findall_frag, xml_dst_fails = None\<rparr>\<rparr>
     w0
   = (0, NoOutput, emit INFO Saved (emit ERROR XmlParseError w0))"
  using swallowed_failure_exit_zero
    [of "\<lparr>config_given = True, config_src = Inr [], input_exists = True, fmt = FXml,
      json_src = Inl OtherError, json_dst_fails = None,
      csv_files = csv_file ''utf-8'' [],
      xml_files = \<lparr>xml_src = Inl ParseError, findall = findall_frag, xml_dst_fails = None\<rparr>\<rparr>"
      "[]" py_lib w0]
  by (simp add: main_def load_config_def run_format_def anonymize_xml_def xml_except_def)

end
